theory Spec2Isabelle
  imports Complex_Main "HOL-Library.Sublist" "HOL-Library.Multiset"
begin

section \<open>The nextrade server: data model\<close>

text \<open>
  The server is one Express application over three Mongoose collections (users,
  products, orders), a JSON Web Token for sessions and the Razorpay gateway. Each route
  handler becomes a function from the environment, the store and the request to a
  response and the store afterwards.

  What the model takes from outside the server's own text:
  \<^item> a request is read after JSON parsing. For the product and order routes every path
    of the payload is absent, holds a value that Mongoose casts to the path's type, or
    holds one that it cannot cast; the id in a route is an ObjectId or a string that is
    none. Where Mongoose rejects (a value or id that cannot be cast, an \<^verbatim>\<open>_id\<close> that is
    already stored) the awaited call throws, and a handler without \<^verbatim>\<open>try\<close> sends
    nothing. Names outside the schema are dropped (strict mode);
  \<^item> the signup and login payloads are kept in their cast form, every path absent or a
    string: signup catches whatever \<^verbatim>\<open>save\<close> throws, login reads two strings;
  \<^item> an ObjectId is a natural number; the one generated for a new document is supplied
    by the environment, as the clock reading is;
  \<^item> bcrypt, the token library, the text of a store error and the payment gateway are
    functions of the environment, about which nothing is assumed;
  \<^item> the store itself does not fail, and a collection keeps its documents in insertion
    order;
  \<^item> numbers are the rationals they denote; strings are lists of 8-bit characters.
\<close>

type_synonym objectid = nat

datatype json =
    JNull
  | JBool bool
  | JNum rat
  | JStr string
  | JId objectid
  | JDate nat
  | JArr "json list"
  | JObj "(string \<times> json) list"

text \<open>
  What a handler leaves behind: a response (status and JSON body), or nothing at all
  when a promise it awaits rejects outside any \<^verbatim>\<open>try\<close> (the handler sends no response).
\<close>

datatype response = Responded nat json | Unhandled

subsection \<open>Schemas\<close>

text \<open>The paths of \<^verbatim>\<open>userSchema\<close>, as a payload carries them.\<close>

record user_fields =
  u_name :: "string option"
  u_email :: "string option"
  u_password :: "string option"
  u_role :: "string option"
  u_businessName :: "string option"
  u_gstNumber :: "string option"
  u_shopName :: "string option"
  u_shopAddress :: "string option"

text \<open>A stored document adds \<^verbatim>\<open>_id\<close> and the two timestamps of \<^verbatim>\<open>{ timestamps: true }\<close>.\<close>

record user = user_fields +
  u_id :: objectid
  u_createdAt :: nat
  u_updatedAt :: nat

text \<open>The paths of \<^verbatim>\<open>productSchema\<close>.\<close>

record product_fields =
  p_name :: "string option"
  p_price :: "rat option"
  p_category :: "string option"
  p_image :: "string option"
  p_wholesalerId :: "objectid option"

record product = product_fields +
  p_id :: objectid
  p_createdAt :: nat
  p_updatedAt :: nat

text \<open>The paths of \<^verbatim>\<open>orderSchema\<close>.\<close>

record order_fields =
  o_productName :: "string option"
  o_price :: "rat option"
  o_quantity :: "rat option"
  o_address :: "string option"
  o_paymentMethod :: "string option"
  o_paymentStatus :: "string option"
  o_razorpayOrderId :: "string option"
  o_razorpayPaymentId :: "string option"
  o_customerName :: "string option"
  o_email :: "string option"
  o_phone :: "string option"
  o_status :: "string option"

record order = order_fields +
  o_id :: objectid
  o_createdAt :: nat
  o_updatedAt :: nat

text \<open>
  A path of a request payload as Mongoose meets it: left out, a value that casts to the
  path's type, or a value that cannot be cast.
\<close>

datatype 'a path_value = Absent | Value 'a | Uncastable

definition cast_value :: "'a path_value \<Rightarrow> 'a option" where
  "cast_value v = (case v of Value x \<Rightarrow> Some x | _ \<Rightarrow> None)"

definition uncastable :: "'a path_value \<Rightarrow> bool" where
  "uncastable v = (case v of Uncastable \<Rightarrow> True | _ \<Rightarrow> False)"

text \<open>The payload of the product routes: the schema's paths and \<^verbatim>\<open>_id\<close>.\<close>

record product_body =
  pb_id :: "objectid path_value"
  pb_name :: "string path_value"
  pb_price :: "rat path_value"
  pb_category :: "string path_value"
  pb_image :: "string path_value"
  pb_wholesalerId :: "objectid path_value"

text \<open>The payload of the order route: the schema's paths and \<^verbatim>\<open>_id\<close>.\<close>

record order_body =
  ob_id :: "objectid path_value"
  ob_productName :: "string path_value"
  ob_price :: "rat path_value"
  ob_quantity :: "rat path_value"
  ob_address :: "string path_value"
  ob_paymentMethod :: "string path_value"
  ob_paymentStatus :: "string path_value"
  ob_razorpayOrderId :: "string path_value"
  ob_razorpayPaymentId :: "string path_value"
  ob_customerName :: "string path_value"
  ob_email :: "string path_value"
  ob_phone :: "string path_value"
  ob_status :: "string path_value"

text \<open>The three collections, each in insertion order.\<close>

record store =
  users :: "user list"
  products :: "product list"
  orders :: "order list"

subsection \<open>Environment and requests\<close>

text \<open>The payload of a session token: \<^verbatim>\<open>{ id: user._id, role: user.role }\<close>.\<close>

record token_claims =
  tc_id :: objectid
  tc_role :: "string option"

datatype save_error = ValidationError | DuplicateKeyError

datatype jsnum = Num rat | NaN

text \<open>The argument of \<^verbatim>\<open>razorpay.orders.create\<close>.\<close>

record charge =
  ch_amount :: jsnum
  ch_currency :: string
  ch_receipt :: string

record env =
  now :: nat
  new_oid :: objectid
  bcrypt_hash :: "string \<Rightarrow> string"
  bcrypt_compare :: "string \<Rightarrow> string \<Rightarrow> bool"
  jwt_sign :: "token_claims \<Rightarrow> string"
  jwt_verify :: "string \<Rightarrow> token_claims option"
  error_message :: "save_error \<Rightarrow> string"
  razorpay_orders_create :: "charge \<Rightarrow> json option"

text \<open>\<^verbatim>\<open>req.params.id\<close>: a string that is an ObjectId, or one that is not.\<close>

datatype id_param = ObjectId objectid | Malformed

text \<open>
  The parts of an Express request the handlers read: the \<^verbatim>\<open>Authorization\<close> header,
  the body, \<^verbatim>\<open>req.params.id\<close> and \<^verbatim>\<open>req.query.search\<close>.
\<close>

record 'b request =
  authorization :: "string option"
  body :: 'b
  params_id :: id_param
  query_search :: "string option"

section \<open>Serialisation\<close>

text \<open>
  \<^verbatim>\<open>toObject()\<close> lists the paths a document holds; a path that was never set is not
  among them. The order of the keys carries no meaning.
\<close>

definition entry :: "string \<Rightarrow> ('a \<Rightarrow> json) \<Rightarrow> 'a option \<Rightarrow> (string \<times> json) list" where
  "entry k f v = (case v of None \<Rightarrow> [] | Some x \<Rightarrow> [(k, f x)])"

definition user_toObject :: "user \<Rightarrow> (string \<times> json) list" where
  "user_toObject u =
     [(''_id'', JId (u_id u))]
     @ entry ''name'' JStr (u_name u)
     @ entry ''email'' JStr (u_email u)
     @ entry ''password'' JStr (u_password u)
     @ entry ''role'' JStr (u_role u)
     @ entry ''businessName'' JStr (u_businessName u)
     @ entry ''gstNumber'' JStr (u_gstNumber u)
     @ entry ''shopName'' JStr (u_shopName u)
     @ entry ''shopAddress'' JStr (u_shopAddress u)
     @ [(''createdAt'', JDate (u_createdAt u)), (''updatedAt'', JDate (u_updatedAt u)),
        (''__v'', JNum 0)]"

text \<open>
  \<^verbatim>\<open>userSchema.methods.toJSON\<close>: \<^verbatim>\<open>const user = this.toObject(); delete user.password;
  return user\<close>. \<^verbatim>\<open>res.json\<close> calls it on every user document it serialises.
\<close>

definition user_toJSON :: "user \<Rightarrow> json" where
  "user_toJSON u = JObj (filter (\<lambda>kv. fst kv \<noteq> ''password'') (user_toObject u))"

definition product_toObject :: "product \<Rightarrow> (string \<times> json) list" where
  "product_toObject p =
     [(''_id'', JId (p_id p))]
     @ entry ''name'' JStr (p_name p)
     @ entry ''price'' JNum (p_price p)
     @ entry ''category'' JStr (p_category p)
     @ entry ''image'' JStr (p_image p)
     @ entry ''wholesalerId'' JId (p_wholesalerId p)
     @ [(''createdAt'', JDate (p_createdAt p)), (''updatedAt'', JDate (p_updatedAt p)),
        (''__v'', JNum 0)]"

definition product_toJSON :: "product \<Rightarrow> json" where
  "product_toJSON p = JObj (product_toObject p)"

definition order_toObject :: "order \<Rightarrow> (string \<times> json) list" where
  "order_toObject d =
     [(''_id'', JId (o_id d))]
     @ entry ''productName'' JStr (o_productName d)
     @ entry ''price'' JNum (o_price d)
     @ entry ''quantity'' JNum (o_quantity d)
     @ entry ''address'' JStr (o_address d)
     @ entry ''paymentMethod'' JStr (o_paymentMethod d)
     @ entry ''paymentStatus'' JStr (o_paymentStatus d)
     @ entry ''razorpayOrderId'' JStr (o_razorpayOrderId d)
     @ entry ''razorpayPaymentId'' JStr (o_razorpayPaymentId d)
     @ entry ''customerName'' JStr (o_customerName d)
     @ entry ''email'' JStr (o_email d)
     @ entry ''phone'' JStr (o_phone d)
     @ entry ''status'' JStr (o_status d)
     @ [(''createdAt'', JDate (o_createdAt d)), (''updatedAt'', JDate (o_updatedAt d)),
        (''__v'', JNum 0)]"

definition order_toJSON :: "order \<Rightarrow> json" where
  "order_toJSON d = JObj (order_toObject d)"

text \<open>Whether a key stands anywhere in a JSON value, at any depth.\<close>

fun has_key :: "string \<Rightarrow> json \<Rightarrow> bool" where
  "has_key k (JObj kvs) = list_ex (\<lambda>kv. fst kv = k \<or> has_key k (snd kv)) kvs"
| "has_key k (JArr vs) = list_ex (has_key k) vs"
| "has_key k _ = False"

definition response_has_key :: "string \<Rightarrow> response \<Rightarrow> bool" where
  "response_has_key k r = (case r of Responded _ b \<Rightarrow> has_key k b | Unhandled \<Rightarrow> False)"

section \<open>The authentication middleware\<close>

text \<open>\<^verbatim>\<open>authHeader.split(" ")\<close>: the pieces between single spaces.\<close>

fun split_space :: "string \<Rightarrow> string list" where
  "split_space [] = [[]]"
| "split_space (c # cs) =
     (if c = CHR '' '' then [] # split_space cs
      else (case split_space cs of
              [] \<Rightarrow> [[c]]
            | w # ws \<Rightarrow> (c # w) # ws))"

text \<open>
  \<^verbatim>\<open>authMiddleware\<close>: a missing header, an empty one or one that does not start with
  \<^verbatim>\<open>"Bearer "\<close> is answered 401 Unauthorized; a token that \<^verbatim>\<open>jwt.verify\<close> refuses
  (also a missing second piece) is answered 401 Invalid token; otherwise the decoded
  payload becomes \<^verbatim>\<open>req.user\<close> and the route's handler runs.
\<close>

definition authMiddleware :: "env \<Rightarrow> string option \<Rightarrow> response + token_claims" where
  "authMiddleware e authHeader =
     (case authHeader of
        None \<Rightarrow>
          Inl (Responded 401 (JObj [(''success'', JBool False), (''message'', JStr ''Unauthorized'')]))
      | Some h \<Rightarrow>
          if h = [] \<or> \<not> prefix ''Bearer '' h then
            Inl (Responded 401 (JObj [(''success'', JBool False), (''message'', JStr ''Unauthorized'')]))
          else
            (case (case split_space h of _ # token # _ \<Rightarrow> jwt_verify e token | _ \<Rightarrow> None) of
               None \<Rightarrow>
                 Inl (Responded 401 (JObj [(''success'', JBool False), (''message'', JStr ''Invalid token'')]))
             | Some decoded \<Rightarrow> Inr decoded))"

section \<open>Accounts\<close>

text \<open>\<^verbatim>\<open>role: { type: String, enum: ['admin', 'wholesaler', 'retailer'] }\<close>, not required.\<close>

definition role_enum :: "string option \<Rightarrow> bool" where
  "role_enum r =
     (case r of
        None \<Rightarrow> True
      | Some x \<Rightarrow> x = ''admin'' \<or> x = ''wholesaler'' \<or> x = ''retailer'')"

text \<open>\<^verbatim>\<open>new User(req.body)\<close>: the payload's paths and a fresh \<^verbatim>\<open>_id\<close>.\<close>

definition new_User :: "env \<Rightarrow> user_fields \<Rightarrow> user" where
  "new_User e obj =
     \<lparr>u_name = u_name obj, u_email = u_email obj, u_password = u_password obj,
      u_role = u_role obj, u_businessName = u_businessName obj,
      u_gstNumber = u_gstNumber obj, u_shopName = u_shopName obj,
      u_shopAddress = u_shopAddress obj,
      u_id = new_oid e, u_createdAt = now e, u_updatedAt = now e\<rparr>"

text \<open>
  \<^verbatim>\<open>userSchema.pre('save', ...)\<close>: a password that was set is replaced by its bcrypt
  hash; a document without one is left alone (\<^verbatim>\<open>isModified('password')\<close> is false).
\<close>

definition pre_save :: "env \<Rightarrow> user \<Rightarrow> user" where
  "pre_save e u = u\<lparr>u_password := map_option (bcrypt_hash e) (u_password u)\<rparr>"

text \<open>
  \<^verbatim>\<open>user.save()\<close> on a new document: validation (the role's enum), then the save hook,
  then the insert, which the unique index on \<^verbatim>\<open>email\<close> refuses when a stored user
  has the same email (a missing email is indexed as one value of its own).
\<close>

definition save_User :: "env \<Rightarrow> store \<Rightarrow> user \<Rightarrow> save_error + (user \<times> store)" where
  "save_User e s u =
     (if \<not> role_enum (u_role u) then Inl ValidationError
      else
        (let u' = pre_save e u in
         if list_ex (\<lambda>x. u_email x = u_email u') (users s) then Inl DuplicateKeyError
         else Inr (u', s\<lparr>users := users s @ [u']\<rparr>)))"

text \<open>\<^verbatim>\<open>router.post('/signup', ...)\<close>: the one handler that catches what \<^verbatim>\<open>save\<close> throws.\<close>

definition signup :: "env \<Rightarrow> store \<Rightarrow> user_fields request \<Rightarrow> response \<times> store" where
  "signup e s req =
     (case save_User e s (new_User e (body req)) of
        Inl err \<Rightarrow>
          (Responded 400 (JObj [(''success'', JBool False),
                                (''message'', JStr (error_message e err))]), s)
      | Inr (user, s') \<Rightarrow>
          (Responded 201 (JObj [(''success'', JBool True),
                                (''message'', JStr ''Account created''),
                                (''user'', user_toJSON user)]), s'))"

record login_fields =
  l_email :: "string option"
  l_password :: "string option"

text \<open>
  \<^verbatim>\<open>router.post('/login', ...)\<close>. \<^verbatim>\<open>User.findOne({ email })\<close> is the first stored user with
  that email. \<^verbatim>\<open>bcrypt.compare\<close> rejects when either argument is not a string (a payload
  without password, a user stored without one); the handler has no \<^verbatim>\<open>try\<close>, so it
  then sends nothing.
\<close>

definition login :: "env \<Rightarrow> store \<Rightarrow> login_fields request \<Rightarrow> response" where
  "login e s req =
     (case find (\<lambda>u. u_email u = l_email (body req)) (users s) of
        None \<Rightarrow>
          Responded 401 (JObj [(''success'', JBool False), (''message'', JStr ''Invalid credentials'')])
      | Some user \<Rightarrow>
          (case (l_password (body req), u_password user) of
             (Some password, Some hash) \<Rightarrow>
               if \<not> bcrypt_compare e password hash then
                 Responded 401 (JObj [(''success'', JBool False), (''message'', JStr ''Invalid credentials'')])
               else
                 Responded 200 (JObj [(''success'', JBool True),
                                      (''token'', JStr (jwt_sign e \<lparr>tc_id = u_id user, tc_role = u_role user\<rparr>)),
                                      (''user'', user_toJSON user)])
           | _ \<Rightarrow> Unhandled))"

text \<open>
  \<^verbatim>\<open>router.get('/wholesalers', ...)\<close>: \<^verbatim>\<open>User.find({ role: 'wholesaler' }, { password: 0 })\<close>,
  the projection dropping the password before the documents are serialised.
\<close>

definition get_wholesalers :: "store \<Rightarrow> response" where
  "get_wholesalers s =
     (let wholesalers = map (\<lambda>u. u\<lparr>u_password := None\<rparr>)
                          (filter (\<lambda>u. u_role u = Some ''wholesaler'') (users s))
      in Responded 200 (JObj [(''success'', JBool True),
                              (''wholesalers'', JArr (map user_toJSON wholesalers))]))"

section \<open>Products\<close>

text \<open>Some path of the payload holds a value that cannot be cast.\<close>

definition product_cast_fails :: "product_body \<Rightarrow> bool" where
  "product_cast_fails b =
     (uncastable (pb_id b) \<or> uncastable (pb_name b) \<or> uncastable (pb_price b)
      \<or> uncastable (pb_category b) \<or> uncastable (pb_image b) \<or> uncastable (pb_wholesalerId b))"

text \<open>
  \<^verbatim>\<open>new Product(obj)\<close>: the paths of \<^verbatim>\<open>obj\<close> that cast, the \<^verbatim>\<open>_id\<close> of \<^verbatim>\<open>obj\<close> or else
  a fresh one, and both timestamps at the clock reading.
\<close>

definition new_Product :: "env \<Rightarrow> product_body \<Rightarrow> product" where
  "new_Product e obj =
     \<lparr>p_name = cast_value (pb_name obj), p_price = cast_value (pb_price obj),
      p_category = cast_value (pb_category obj), p_image = cast_value (pb_image obj),
      p_wholesalerId = cast_value (pb_wholesalerId obj),
      p_id = (case pb_id obj of Value i \<Rightarrow> i | _ \<Rightarrow> new_oid e),
      p_createdAt = now e, p_updatedAt = now e\<rparr>"

text \<open>
  \<^verbatim>\<open>product.save()\<close> on a new document rejects when a value could not be cast (a
  validation error) and when the store already holds the \<^verbatim>\<open>_id\<close> (a duplicate key);
  otherwise the document is inserted.
\<close>

definition save_Product :: "env \<Rightarrow> store \<Rightarrow> product_body \<Rightarrow> save_error + (product \<times> store)" where
  "save_Product e s obj =
     (if product_cast_fails obj then Inl ValidationError
      else
        (let product = new_Product e obj in
         if list_ex (\<lambda>q. p_id q = p_id product) (products s) then Inl DuplicateKeyError
         else Inr (product, s\<lparr>products := products s @ [product]\<rparr>)))"

text \<open>
  \<^verbatim>\<open>router.post('/products', authMiddleware, ...)\<close>: only a caller whose token says
  \<^verbatim>\<open>wholesaler\<close> passes; the document is built from
  \<^verbatim>\<open>{ ...req.body, wholesalerId: req.user.id }\<close>, so the caller's id replaces whatever
  the payload says. The handler has no \<^verbatim>\<open>try\<close>: when \<^verbatim>\<open>save\<close> rejects it sends nothing.
\<close>

definition post_products :: "env \<Rightarrow> store \<Rightarrow> product_body request \<Rightarrow> response \<times> store" where
  "post_products e s req =
     (case authMiddleware e (authorization req) of
        Inl r \<Rightarrow> (r, s)
      | Inr user \<Rightarrow>
          if tc_role user \<noteq> Some ''wholesaler'' then
            (Responded 403 (JObj [(''success'', JBool False),
                                  (''message'', JStr ''Only wholesalers can add products'')]), s)
          else
            (case save_Product e s ((body req)\<lparr>pb_wholesalerId := Value (tc_id user)\<rparr>) of
               Inl err \<Rightarrow> (Unhandled, s)
             | Inr (product, s') \<Rightarrow>
                 (Responded 201 (JObj [(''success'', JBool True), (''product'', product_toJSON product)]),
                  s')))"

text \<open>The filter of both mutating routes: \<^verbatim>\<open>{ _id: req.params.id, wholesalerId: req.user.id }\<close>.\<close>

definition owned_by :: "objectid \<Rightarrow> objectid \<Rightarrow> product \<Rightarrow> bool" where
  "owned_by pid uid p = (p_id p = pid \<and> p_wholesalerId p = Some uid)"

text \<open>\<^verbatim>\<open>deleteOne\<close>: the first document that matches goes.\<close>

fun delete_first :: "('a \<Rightarrow> bool) \<Rightarrow> 'a list \<Rightarrow> 'a list" where
  "delete_first P [] = []"
| "delete_first P (x # xs) = (if P x then xs else x # delete_first P xs)"

text \<open>
  \<^verbatim>\<open>router.delete('/products/:id', authMiddleware, ...)\<close>: \<^verbatim>\<open>findOne\<close> with the filter
  rejects when the route's id is no ObjectId, and the handler, having no \<^verbatim>\<open>try\<close>, then
  sends nothing; nothing found is answered 403; otherwise \<^verbatim>\<open>product.deleteOne()\<close>
  removes the document with that \<^verbatim>\<open>_id\<close>.
\<close>

definition delete_product :: "env \<Rightarrow> store \<Rightarrow> unit request \<Rightarrow> response \<times> store" where
  "delete_product e s req =
     (case authMiddleware e (authorization req) of
        Inl r \<Rightarrow> (r, s)
      | Inr user \<Rightarrow>
          (case params_id req of
             Malformed \<Rightarrow> (Unhandled, s)
           | ObjectId pid \<Rightarrow>
               (case find (owned_by pid (tc_id user)) (products s) of
                  None \<Rightarrow>
                    (Responded 403 (JObj [(''success'', JBool False), (''message'', JStr ''Not allowed'')]), s)
                | Some product \<Rightarrow>
                    (Responded 200 (JObj [(''success'', JBool True)]),
                     s\<lparr>products := delete_first (\<lambda>q. p_id q = p_id product) (products s)\<rparr>))))"

text \<open>
  The update document of \<^verbatim>\<open>findOneAndUpdate\<close> is the request body as it came: every path
  it holds is set (\<^verbatim>\<open>wholesalerId\<close> among them), the others keep their value, and
  \<^verbatim>\<open>updatedAt\<close> moves to the clock reading.
\<close>

definition set_path :: "'a option \<Rightarrow> 'a option \<Rightarrow> 'a option" where
  "set_path new old = (case new of None \<Rightarrow> old | Some v \<Rightarrow> Some v)"

definition apply_update :: "env \<Rightarrow> product_body \<Rightarrow> product \<Rightarrow> product" where
  "apply_update e upd p =
     p\<lparr>p_name := set_path (cast_value (pb_name upd)) (p_name p),
       p_price := set_path (cast_value (pb_price upd)) (p_price p),
       p_category := set_path (cast_value (pb_category upd)) (p_category p),
       p_image := set_path (cast_value (pb_image upd)) (p_image p),
       p_wholesalerId := set_path (cast_value (pb_wholesalerId upd)) (p_wholesalerId p),
       p_updatedAt := now e\<rparr>"

text \<open>The store refuses an update that would give a document another \<^verbatim>\<open>_id\<close>.\<close>

definition changes_id :: "product_body \<Rightarrow> product \<Rightarrow> bool" where
  "changes_id upd p = (case pb_id upd of Value i \<Rightarrow> i \<noteq> p_id p | _ \<Rightarrow> False)"

fun update_first :: "('a \<Rightarrow> bool) \<Rightarrow> ('a \<Rightarrow> 'a) \<Rightarrow> 'a list \<Rightarrow> 'a list" where
  "update_first P f [] = []"
| "update_first P f (x # xs) = (if P x then f x # xs else x # update_first P f xs)"

text \<open>
  \<^verbatim>\<open>router.put('/products/:id', authMiddleware, ...)\<close>:
  \<^verbatim>\<open>Product.findOneAndUpdate(filter, req.body, { new: true })\<close> casts the filter and the
  update first and rejects when the route's id or a value of the payload cannot be cast;
  then it changes the first document that matches and returns it as changed, or returns
  null, which is answered 403. The handler has no \<^verbatim>\<open>try\<close>: on a rejection it sends
  nothing.
\<close>

definition put_product :: "env \<Rightarrow> store \<Rightarrow> product_body request \<Rightarrow> response \<times> store" where
  "put_product e s req =
     (case authMiddleware e (authorization req) of
        Inl r \<Rightarrow> (r, s)
      | Inr user \<Rightarrow>
          (case params_id req of
             Malformed \<Rightarrow> (Unhandled, s)
           | ObjectId pid \<Rightarrow>
               if product_cast_fails (body req) then (Unhandled, s)
               else
                 (case find (owned_by pid (tc_id user)) (products s) of
                    None \<Rightarrow> (Responded 403 (JObj [(''success'', JBool False)]), s)
                  | Some found \<Rightarrow>
                      if changes_id (body req) found then (Unhandled, s)
                      else
                        (Responded 200 (JObj [(''success'', JBool True),
                                              (''product'', product_toJSON (apply_update e (body req) found))]),
                         s\<lparr>products := update_first (owned_by pid (tc_id user))
                                          (apply_update e (body req)) (products s)\<rparr>))))"

subsection \<open>Search\<close>

text \<open>
  \<^verbatim>\<open>new RegExp(search, 'i')\<close> reads the search string as a regular expression. The model
  covers the patterns made of ordinary characters and the dot; a pattern that uses any
  other syntax character (\<^verbatim>\<open>^ $ \ * + ? ( ) [ ] { } |\<close>) is outside it.
\<close>

datatype re_atom = Lit char | Dot

definition syntax_character :: "char \<Rightarrow> bool" where
  "syntax_character c = (c \<in> set (''^$.*+?()[]{}|'' @ [CHR 0x5C]))"

fun RegExp :: "string \<Rightarrow> re_atom list option" where
  "RegExp [] = Some []"
| "RegExp (c # cs) =
     (if c = CHR ''.'' then map_option (Cons Dot) (RegExp cs)
      else if syntax_character c then None
      else map_option (Cons (Lit c)) (RegExp cs))"

text \<open>The \<^verbatim>\<open>i\<close> flag compares characters by their upper-case form (ASCII letters here).\<close>

definition canonicalize :: "char \<Rightarrow> char" where
  "canonicalize c =
     (let n = (of_char c :: nat) in if 97 \<le> n \<and> n \<le> 122 then char_of (n - 32) else c)"

fun atom_matches :: "re_atom \<Rightarrow> char \<Rightarrow> bool" where
  "atom_matches (Lit x) c = (canonicalize x = canonicalize c)"
| "atom_matches Dot c = (c \<noteq> CHR 0x0A \<and> c \<noteq> CHR 0x0D)"

text \<open>The pattern matches at the start of the string.\<close>

fun matches_here :: "re_atom list \<Rightarrow> string \<Rightarrow> bool" where
  "matches_here [] s = True"
| "matches_here (a # as) [] = False"
| "matches_here (a # as) (c # cs) = (atom_matches a c \<and> matches_here as cs)"

text \<open>An unanchored pattern matches when it matches at some position.\<close>

fun regex_test :: "re_atom list \<Rightarrow> string \<Rightarrow> bool" where
  "regex_test re [] = matches_here re []"
| "regex_test re (c # cs) = (matches_here re (c # cs) \<or> regex_test re cs)"

text \<open>\<^verbatim>\<open>{ path: regex }\<close>: a document without the path does not match.\<close>

definition path_matches :: "re_atom list \<Rightarrow> string option \<Rightarrow> bool" where
  "path_matches re v = (case v of None \<Rightarrow> False | Some s \<Rightarrow> regex_test re s)"

text \<open>\<^verbatim>\<open>.sort({ createdAt: -1 })\<close>: latest creation first.\<close>

definition sort_createdAt_desc :: "product list \<Rightarrow> product list" where
  "sort_createdAt_desc ps = rev (sort_key p_createdAt ps)"

text \<open>
  \<^verbatim>\<open>Product.find({ $or: [{ name: regex }, { category: regex }] }).sort({ createdAt: -1 })\<close>
\<close>

definition find_products :: "re_atom list \<Rightarrow> store \<Rightarrow> product list" where
  "find_products re s =
     sort_createdAt_desc
       (filter (\<lambda>p. path_matches re (p_name p) \<or> path_matches re (p_category p)) (products s))"

text \<open>
  \<^verbatim>\<open>router.get('/products', ...)\<close>, with \<^verbatim>\<open>req.query.search || ''\<close>. The result is
  \<open>None\<close> exactly when the pattern is outside the modelled syntax.
\<close>

definition get_products :: "store \<Rightarrow> 'b request \<Rightarrow> response option" where
  "get_products s req =
     (let search = (case query_search req of None \<Rightarrow> [] | Some x \<Rightarrow> x) in
      case RegExp search of
        None \<Rightarrow> None
      | Some regex \<Rightarrow>
          Some (Responded 200 (JObj [(''success'', JBool True),
                                     (''products'', JArr (map product_toJSON (find_products regex s)))])))"

text \<open>
  The specification's own reading of the search, to compare with: the string occurs in
  the value as a contiguous piece, letter case aside.
\<close>

definition contains_ci :: "string \<Rightarrow> string option \<Rightarrow> bool" where
  "contains_ci x v =
     (case v of
        None \<Rightarrow> False
      | Some s \<Rightarrow> sublist (map canonicalize x) (map canonicalize s))"

definition spec_search :: "string \<Rightarrow> product \<Rightarrow> bool" where
  "spec_search x p = (contains_ci x (p_name p) \<or> contains_ci x (p_category p))"

section \<open>Orders\<close>

definition order_cast_fails :: "order_body \<Rightarrow> bool" where
  "order_cast_fails b =
     (uncastable (ob_id b) \<or> uncastable (ob_productName b) \<or> uncastable (ob_price b)
      \<or> uncastable (ob_quantity b) \<or> uncastable (ob_address b) \<or> uncastable (ob_paymentMethod b)
      \<or> uncastable (ob_paymentStatus b) \<or> uncastable (ob_razorpayOrderId b)
      \<or> uncastable (ob_razorpayPaymentId b) \<or> uncastable (ob_customerName b)
      \<or> uncastable (ob_email b) \<or> uncastable (ob_phone b) \<or> uncastable (ob_status b))"

text \<open>
  \<^verbatim>\<open>new Order(req.body)\<close>: \<^verbatim>\<open>paymentStatus\<close> and \<^verbatim>\<open>status\<close> take their schema default
  only when the payload leaves them out.
\<close>

definition default_to :: "'a \<Rightarrow> 'a option \<Rightarrow> 'a option" where
  "default_to d v = (case v of None \<Rightarrow> Some d | Some x \<Rightarrow> Some x)"

definition new_Order :: "env \<Rightarrow> order_body \<Rightarrow> order" where
  "new_Order e obj =
     \<lparr>o_productName = cast_value (ob_productName obj), o_price = cast_value (ob_price obj),
      o_quantity = cast_value (ob_quantity obj), o_address = cast_value (ob_address obj),
      o_paymentMethod = cast_value (ob_paymentMethod obj),
      o_paymentStatus = default_to ''Pending'' (cast_value (ob_paymentStatus obj)),
      o_razorpayOrderId = cast_value (ob_razorpayOrderId obj),
      o_razorpayPaymentId = cast_value (ob_razorpayPaymentId obj),
      o_customerName = cast_value (ob_customerName obj), o_email = cast_value (ob_email obj),
      o_phone = cast_value (ob_phone obj),
      o_status = default_to ''Processing'' (cast_value (ob_status obj)),
      o_id = (case ob_id obj of Value i \<Rightarrow> i | _ \<Rightarrow> new_oid e),
      o_createdAt = now e, o_updatedAt = now e\<rparr>"

text \<open>
  \<^verbatim>\<open>order.save()\<close> rejects when a value could not be cast and when the store already
  holds the \<^verbatim>\<open>_id\<close>; otherwise the document is inserted.
\<close>

definition save_Order :: "env \<Rightarrow> store \<Rightarrow> order_body \<Rightarrow> save_error + (order \<times> store)" where
  "save_Order e s obj =
     (if order_cast_fails obj then Inl ValidationError
      else
        (let order = new_Order e obj in
         if list_ex (\<lambda>d. o_id d = o_id order) (orders s) then Inl DuplicateKeyError
         else Inr (order, s\<lparr>orders := orders s @ [order]\<rparr>)))"

text \<open>
  \<^verbatim>\<open>router.post('/orders', ...)\<close>: no middleware stands before the handler, and no
  \<^verbatim>\<open>try\<close> around \<^verbatim>\<open>save\<close>: when it rejects, the handler sends nothing.
\<close>

definition post_orders :: "env \<Rightarrow> store \<Rightarrow> order_body request \<Rightarrow> response \<times> store" where
  "post_orders e s req =
     (case save_Order e s (body req) of
        Inl err \<Rightarrow> (Unhandled, s)
      | Inr (order, s') \<Rightarrow>
          (Responded 201 (JObj [(''success'', JBool True), (''order'', order_toJSON order)]), s'))"

section \<open>The payment gateway\<close>

text \<open>\<^verbatim>\<open>Math.round\<close> applies \<^verbatim>\<open>ToNumber\<close> first: a missing amount is \<^verbatim>\<open>NaN\<close>.\<close>

definition ToNumber :: "rat option \<Rightarrow> jsnum" where
  "ToNumber v = (case v of None \<Rightarrow> NaN | Some x \<Rightarrow> Num x)"

text \<open>
  \<^verbatim>\<open>Math.round\<close>: the integer closest to the number, the one towards plus infinity when
  two are equally close; \<^verbatim>\<open>NaN\<close> stays \<^verbatim>\<open>NaN\<close>.
\<close>

fun Math_round :: "jsnum \<Rightarrow> jsnum" where
  "Math_round (Num x) = Num (of_int \<lfloor>x + 1 / 2\<rfloor>)"
| "Math_round NaN = NaN"

text \<open>The decimal digits of \<^verbatim>\<open>Date.now()\<close> inside the template string.\<close>

definition digit_char :: "nat \<Rightarrow> char" where
  "digit_char d = ''0123456789'' ! d"

fun decimal :: "nat \<Rightarrow> string" where
  "decimal n = (if n < 10 then [digit_char n] else decimal (n div 10) @ [digit_char (n mod 10)])"

definition charge_request :: "env \<Rightarrow> rat option \<Rightarrow> charge" where
  "charge_request e amount =
     \<lparr>ch_amount = Math_round (ToNumber amount),
      ch_currency = ''INR'',
      ch_receipt = ''receipt_'' @ decimal (now e)\<rparr>"

text \<open>
  \<^verbatim>\<open>app.post('/api/create-order', ...)\<close>: the gateway's order object goes back as it came;
  a rejection by the gateway is not caught.
\<close>

definition create_order :: "env \<Rightarrow> rat option request \<Rightarrow> response" where
  "create_order e req =
     (case razorpay_orders_create e (charge_request e (body req)) of
        None \<Rightarrow> Unhandled
      | Some order \<Rightarrow> Responded 200 order)"

section \<open>A small instance\<close>

text \<open>
  Two wholesalers and a retailer, one product each for the wholesalers, and stand-ins
  for the libraries, to run the handlers on.
\<close>

definition example_env :: env where
  "example_env =
     \<lparr>now = 1700, new_oid = 100,
      bcrypt_hash = (\<lambda>p. ''$2a$10$'' @ p),
      bcrypt_compare = (\<lambda>p h. h = ''$2a$10$'' @ p),
      jwt_sign = (\<lambda>c. ''token'' @ decimal (tc_id c)),
      jwt_verify = (\<lambda>t.
        if t = ''token1'' then Some \<lparr>tc_id = 1, tc_role = Some ''wholesaler''\<rparr>
        else if t = ''token2'' then Some \<lparr>tc_id = 2, tc_role = Some ''wholesaler''\<rparr>
        else if t = ''token3'' then Some \<lparr>tc_id = 3, tc_role = Some ''retailer''\<rparr>
        else None),
      error_message = (\<lambda>err. case err of
          ValidationError \<Rightarrow> ''User validation failed''
        | DuplicateKeyError \<Rightarrow> ''E11000 duplicate key error''),
      razorpay_orders_create = (\<lambda>c. case ch_amount c of
          NaN \<Rightarrow> None
        | Num x \<Rightarrow> Some (JObj [(''amount'', JNum x), (''currency'', JStr (ch_currency c)),
                                (''receipt'', JStr (ch_receipt c))]))\<rparr>"

definition no_user_fields :: user_fields where
  "no_user_fields =
     \<lparr>u_name = None, u_email = None, u_password = None, u_role = None,
      u_businessName = None, u_gstNumber = None, u_shopName = None, u_shopAddress = None\<rparr>"

definition no_product_body :: product_body where
  "no_product_body =
     \<lparr>pb_id = Absent, pb_name = Absent, pb_price = Absent, pb_category = Absent,
      pb_image = Absent, pb_wholesalerId = Absent\<rparr>"

definition no_order_body :: order_body where
  "no_order_body =
     \<lparr>ob_id = Absent, ob_productName = Absent, ob_price = Absent, ob_quantity = Absent,
      ob_address = Absent, ob_paymentMethod = Absent, ob_paymentStatus = Absent,
      ob_razorpayOrderId = Absent, ob_razorpayPaymentId = Absent, ob_customerName = Absent,
      ob_email = Absent, ob_phone = Absent, ob_status = Absent\<rparr>"

definition example_user :: "objectid \<Rightarrow> string \<Rightarrow> string \<Rightarrow> string \<Rightarrow> user" where
  "example_user i n m r =
     \<lparr>u_name = Some n, u_email = Some m, u_password = Some (''$2a$10$'' @ n), u_role = Some r,
      u_businessName = None, u_gstNumber = None, u_shopName = None, u_shopAddress = None,
      u_id = i, u_createdAt = 1000, u_updatedAt = 1000\<rparr>"

definition widget :: product where
  "widget =
     \<lparr>p_name = Some ''Widget'', p_price = Some 10, p_category = Some ''Tools'', p_image = None,
      p_wholesalerId = Some 1, p_id = 10, p_createdAt = 1100, p_updatedAt = 1100\<rparr>"

definition gadget :: product where
  "gadget =
     \<lparr>p_name = Some ''Gadget'', p_price = Some 25, p_category = Some ''Toys'', p_image = None,
      p_wholesalerId = Some 2, p_id = 11, p_createdAt = 1200, p_updatedAt = 1200\<rparr>"

definition example_store :: store where
  "example_store =
     \<lparr>users = [example_user 1 ''Acme'' ''acme@x.com'' ''wholesaler'',
               example_user 2 ''Bolt'' ''bolt@x.com'' ''wholesaler'',
               example_user 3 ''Rita'' ''rita@x.com'' ''retailer''],
      products = [widget, gadget],
      orders = []\<rparr>"

definition example_request :: "string option \<Rightarrow> 'b \<Rightarrow> objectid \<Rightarrow> 'b request" where
  "example_request h b i =
     \<lparr>authorization = h, body = b, params_id = ObjectId i, query_search = None\<rparr>"

section \<open>Auxiliary facts\<close>

subsection \<open>The middleware on the instance's tokens\<close>

lemma auth_token1:
  "authMiddleware example_env (Some ''Bearer token1'') = Inr \<lparr>tc_id = 1, tc_role = Some ''wholesaler''\<rparr>"
  by (simp add: authMiddleware_def example_env_def)

lemma auth_token3:
  "authMiddleware example_env (Some ''Bearer token3'') = Inr \<lparr>tc_id = 3, tc_role = Some ''retailer''\<rparr>"
  by (simp add: authMiddleware_def example_env_def)

subsection \<open>Serialised users\<close>

lemma delete_key_flat:
  "list_all (\<lambda>kv. \<not> has_key k (snd kv)) kvs \<Longrightarrow>
   \<not> has_key k (JObj (filter (\<lambda>kv. fst kv \<noteq> k) kvs))"
  by (induction kvs) auto

lemma entry_flat:
  "(\<And>x. \<not> has_key k (f x)) \<Longrightarrow> list_all (\<lambda>kv. \<not> has_key k (snd kv)) (entry k' f v)"
  by (simp add: entry_def split: option.splits)

lemma user_toObject_flat: "list_all (\<lambda>kv. \<not> has_key k (snd kv)) (user_toObject u)"
  by (simp add: user_toObject_def entry_flat)

lemma user_toJSON_no_password: "\<not> has_key ''password'' (user_toJSON u)"
  unfolding user_toJSON_def by (rule delete_key_flat) (rule user_toObject_flat)

lemma users_toJSON_no_password:
  "\<not> list_ex (has_key ''password'') (map (\<lambda>u. user_toJSON (f u)) us)"
  by (simp add: list_ex_iff user_toJSON_no_password)

subsection \<open>Patterns without syntax characters\<close>

lemma RegExp_plain: "\<not> list_ex syntax_character x \<Longrightarrow> RegExp x = Some (map Lit x)"
  by (induction x) (auto simp: syntax_character_def)

lemma matches_here_Lit:
  "matches_here (map Lit x) s = prefix (map canonicalize x) (map canonicalize s)"
  by (induction "map Lit x" s arbitrary: x rule: matches_here.induct) auto

lemma regex_test_Lit:
  "regex_test (map Lit x) s = sublist (map canonicalize x) (map canonicalize s)"
  by (induction s) (auto simp: matches_here_Lit sublist_Cons_right)

lemma path_matches_Lit: "path_matches (map Lit x) v = contains_ci x v"
  by (simp add: path_matches_def contains_ci_def regex_test_Lit split: option.splits)

lemma mset_sort_createdAt_desc: "mset (sort_createdAt_desc ps) = mset ps"
  by (simp add: sort_createdAt_desc_def)

lemma sorted_sort_createdAt_desc:
  "sorted_wrt (\<lambda>a b. p_createdAt b \<le> p_createdAt a) (sort_createdAt_desc ps)"
proof -
  have "sorted (map p_createdAt (sort_key p_createdAt ps))" by simp
  then have "sorted_wrt (\<lambda>a b. p_createdAt a \<le> p_createdAt b) (sort_key p_createdAt ps)"
    by (simp add: sorted_wrt_map)
  then show ?thesis
    by (simp add: sort_createdAt_desc_def sorted_wrt_rev)
qed

subsection \<open>Decimal digits\<close>

declare decimal.simps [simp del]

lemma decimal_small: "n < 10 \<Longrightarrow> decimal n = [digit_char n]"
  by (subst decimal.simps) simp

lemma decimal_big: "\<not> n < 10 \<Longrightarrow> decimal n = decimal (n div 10) @ [digit_char (n mod 10)]"
  by (subst decimal.simps) simp

lemma decimal_not_Nil: "decimal n \<noteq> []"
  by (cases "n < 10") (simp_all add: decimal_small decimal_big)

lemma digit_char_inj: "a < 10 \<Longrightarrow> b < 10 \<Longrightarrow> digit_char a = digit_char b \<Longrightarrow> a = b"
proof -
  assume a: "a < 10" and b: "b < 10" and eq: "digit_char a = digit_char b"
  have "distinct ''0123456789''" by simp
  with a b eq show "a = b" by (simp add: digit_char_def nth_eq_iff_index_eq)
qed

lemma decimal_inj: "decimal a = decimal b \<Longrightarrow> a = b"
proof (induction a arbitrary: b rule: decimal.induct)
  case (1 n)
  show ?case
  proof (cases "n < 10")
    case small: True
    show ?thesis
    proof (cases "b < 10")
      case True
      with small "1.prems" show ?thesis
        by (simp add: decimal_small digit_char_inj)
    next
      case False
      with small "1.prems" have "decimal (b div 10) = []"
        by (simp add: decimal_small decimal_big)
      then show ?thesis by (simp add: decimal_not_Nil)
    qed
  next
    case big: False
    show ?thesis
    proof (cases "b < 10")
      case True
      with big "1.prems" have "decimal (n div 10) = []"
        by (simp add: decimal_small decimal_big)
      then show ?thesis by (simp add: decimal_not_Nil)
    next
      case False
      with big "1.prems" have eq: "decimal (n div 10) = decimal (b div 10)"
        and d: "digit_char (n mod 10) = digit_char (b mod 10)"
        by (simp_all add: decimal_big)
      from big eq have "n div 10 = b div 10" by (rule "1.IH")
      moreover from d have "n mod 10 = b mod 10" by (simp add: digit_char_inj)
      ultimately show ?thesis by (metis div_mult_mod_eq)
    qed
  qed
qed

lemma round_half_up_nearest: "\<bar>of_int \<lfloor>x + 1 / 2\<rfloor> - x\<bar> \<le> 1 / (2::rat)"
  by linarith

subsection \<open>Owners under creation and update\<close>

lemma map_update_first:
  "(\<And>x. g (f x) = g x) \<Longrightarrow> map g (update_first P f xs) = map g xs"
  by (induction xs) simp_all

text \<open>
  Creation: whatever the payload says about \<^verbatim>\<open>wholesalerId\<close> (a value that cannot be
  cast included), a product that the route answers for is stored with the caller as owner.
\<close>

lemma post_products_owner_is_caller:
  assumes "authMiddleware e (authorization req) = Inr user"
    and "tc_role user = Some ''wholesaler''"
    and "post_products e s req = (Responded c j, s')"
  shows "\<exists>p. products s' = products s @ [p] \<and> p_wholesalerId p = Some (tc_id user)"
  using assms
  by (auto simp: post_products_def save_Product_def new_Product_def cast_value_def Let_def
           split: if_splits)

text \<open>An update whose payload sets no \<^verbatim>\<open>wholesalerId\<close> changes no owner.\<close>

lemma put_product_silent_payload_keeps_owners:
  assumes "cast_value (pb_wholesalerId (body req)) = None"
  shows "map p_wholesalerId (products (snd (put_product e s req))) = map p_wholesalerId (products s)"
proof -
  have "\<And>p. p_wholesalerId (apply_update e (body req) p) = p_wholesalerId p"
    using assms by (simp add: apply_update_def set_path_def)
  then show ?thesis
    by (simp add: put_product_def map_update_first split: sum.splits option.splits id_param.splits)
qed

section \<open>The claims\<close>

subsection \<open>C1: the owner of a product\<close>

text \<open>
  C1. A product's owning wholesaler is the creating caller's id, whatever the create
  payload says, and no later update changes it. The first half is
  \<open>post_products_owner_is_caller\<close>. The second half fails on the code: the update
  route hands the request body to \<^verbatim>\<open>findOneAndUpdate\<close> as it came, so the owner of product
  10 (user 1) who sends \<^verbatim>\<open>{ wholesalerId: 2 }\<close> is answered 200 and the stored product
  now belongs to user 2.
\<close>

theorem put_product_reassigns_owner:
  "p_wholesalerId widget = Some 1
   \<and> put_product example_env example_store
        \<lparr>authorization = Some ''Bearer token1'',
         body = no_product_body\<lparr>pb_wholesalerId := Value 2\<rparr>,
         params_id = ObjectId 10, query_search = None\<rparr>
     = (Responded 200
          (JObj [(''success'', JBool True),
                 (''product'', product_toJSON (widget\<lparr>p_wholesalerId := Some 2, p_updatedAt := 1700\<rparr>))]),
        example_store\<lparr>products := [widget\<lparr>p_wholesalerId := Some 2, p_updatedAt := 1700\<rparr>, gadget]\<rparr>)"
proof -
  have "now example_env = 1700" by (simp add: example_env_def)
  then show ?thesis
    by (simp add: put_product_def auth_token1 example_store_def owned_by_def widget_def gadget_def
          apply_update_def set_path_def no_product_body_def product_cast_fails_def uncastable_def
          changes_id_def cast_value_def)
qed

subsection \<open>C2: updating or deleting a product that is missing or someone else's\<close>

text \<open>
  C2 as stated: every authenticated update or delete of a product id that no stored
  product has, or that belongs to another user, is answered 403. The code answers
  nothing at all when Mongoose rejects before the query: user 1 updating product 11,
  which user 2 owns, with a price that cannot be cast, and user 1 deleting under an id
  that is no ObjectId, get no response (the store is left as it was).
\<close>

theorem mutation_uncastable_counterexample:
  "authMiddleware example_env (Some ''Bearer token1'') = Inr \<lparr>tc_id = 1, tc_role = Some ''wholesaler''\<rparr>
   \<and> p_id gadget = 11 \<and> p_wholesalerId gadget = Some 2
   \<and> put_product example_env example_store
        \<lparr>authorization = Some ''Bearer token1'', body = no_product_body\<lparr>pb_price := Uncastable\<rparr>,
         params_id = ObjectId 11, query_search = None\<rparr>
      = (Unhandled, example_store)
   \<and> delete_product example_env example_store
        \<lparr>authorization = Some ''Bearer token1'', body = (), params_id = Malformed,
         query_search = None\<rparr>
      = (Unhandled, example_store)"
  by (simp add: auth_token1 put_product_def delete_product_def gadget_def no_product_body_def
        product_cast_fails_def uncastable_def)

text \<open>
  C2, amended: an authenticated caller updates or deletes under an id that no stored
  product of the caller's has (no product has it, or another user owns it). The store is
  always left as it was. When the id is an ObjectId, the delete is answered 403; when
  moreover every value of the update payload casts, the update is answered 403 too: the
  same answer whether the product is missing or someone else's, never a 404.
\<close>

theorem mutation_of_foreign_or_missing_product_forbidden:
  assumes "authMiddleware e h = Inr user"
    and "\<forall>p\<in>set (products s). i = ObjectId (p_id p) \<longrightarrow> p_wholesalerId p \<noteq> Some (tc_id user)"
  shows "snd (put_product e s \<lparr>authorization = h, body = b, params_id = i, query_search = q\<rparr>) = s
       \<and> snd (delete_product e s \<lparr>authorization = h, body = (), params_id = i, query_search = q\<rparr>) = s
       \<and> (i \<noteq> Malformed \<and> \<not> product_cast_fails b \<longrightarrow>
            put_product e s \<lparr>authorization = h, body = b, params_id = i, query_search = q\<rparr>
              = (Responded 403 (JObj [(''success'', JBool False)]), s))
       \<and> (i \<noteq> Malformed \<longrightarrow>
            delete_product e s \<lparr>authorization = h, body = (), params_id = i, query_search = q\<rparr>
              = (Responded 403 (JObj [(''success'', JBool False), (''message'', JStr ''Not allowed'')]), s))"
proof (cases i)
  case (ObjectId pid)
  with assms(2) have "find (owned_by pid (tc_id user)) (products s) = None"
    by (auto simp: find_None_iff owned_by_def)
  with assms(1) ObjectId show ?thesis
    by (simp add: put_product_def delete_product_def)
next
  case Malformed
  with assms(1) show ?thesis
    by (simp add: put_product_def delete_product_def)
qed

text \<open>User 1 on product 11, which user 2 owns.\<close>

theorem mutation_of_foreign_or_missing_product_forbidden_witness:
  "put_product example_env example_store
       \<lparr>authorization = Some ''Bearer token1'', body = no_product_body\<lparr>pb_price := Value 1\<rparr>,
        params_id = ObjectId 11, query_search = None\<rparr>
     = (Responded 403 (JObj [(''success'', JBool False)]), example_store)
   \<and> delete_product example_env example_store
       \<lparr>authorization = Some ''Bearer token1'', body = (), params_id = ObjectId 11,
        query_search = None\<rparr>
     = (Responded 403 (JObj [(''success'', JBool False), (''message'', JStr ''Not allowed'')]),
        example_store)"
  using mutation_of_foreign_or_missing_product_forbidden
    [of example_env "Some ''Bearer token1''" "\<lparr>tc_id = 1, tc_role = Some ''wholesaler''\<rparr>"
        example_store "ObjectId 11" "no_product_body\<lparr>pb_price := Value 1\<rparr>" None]
  by (simp add: auth_token1 example_store_def widget_def gadget_def no_product_body_def
        product_cast_fails_def uncastable_def)

subsection \<open>C3: a serialised user has no password\<close>

text \<open>
  C3. The serialised form of any user document has no \<^verbatim>\<open>password\<close> key, and neither has
  any response of the three routes that send users out: signup, login and the
  wholesaler listing, on every store and every request.
\<close>

theorem serialised_user_has_no_password:
  "\<not> has_key ''password'' (user_toJSON u)
   \<and> \<not> response_has_key ''password'' (fst (signup e s req))
   \<and> \<not> response_has_key ''password'' (login e s lreq)
   \<and> \<not> response_has_key ''password'' (get_wholesalers s)"
proof -
  have "\<not> response_has_key ''password'' (fst (signup e s req))"
    by (simp add: signup_def response_has_key_def user_toJSON_no_password split: sum.splits prod.splits)
  moreover have "\<not> response_has_key ''password'' (login e s lreq)"
    by (simp add: login_def response_has_key_def user_toJSON_no_password split: option.splits)
  moreover have "\<not> response_has_key ''password'' (get_wholesalers s)"
    using users_toJSON_no_password [of "\<lambda>u. u\<lparr>u_password := None\<rparr>"]
    by (simp add: get_wholesalers_def response_has_key_def Let_def comp_def)
  ultimately show ?thesis by (simp add: user_toJSON_no_password)
qed

text \<open>A signup that stores a hashed password and answers without it.\<close>

theorem serialised_user_has_no_password_witness:
  "fst (signup example_env example_store
          (example_request None
             (no_user_fields\<lparr>u_name := Some ''Dora'', u_email := Some ''dora@x.com'',
                              u_password := Some ''hunter2'', u_role := Some ''retailer''\<rparr>) 0))
   = Responded 201
       (JObj [(''success'', JBool True), (''message'', JStr ''Account created''),
              (''user'', JObj [(''_id'', JId 100), (''name'', JStr ''Dora''),
                               (''email'', JStr ''dora@x.com''), (''role'', JStr ''retailer''),
                               (''createdAt'', JDate 1700), (''updatedAt'', JDate 1700),
                               (''__v'', JNum 0)])])
   \<and> \<not> has_key ''password'' (user_toJSON (example_user 1 ''Acme'' ''acme@x.com'' ''wholesaler''))
   \<and> \<not> response_has_key ''password''
        (login example_env example_store
           (example_request None \<lparr>l_email = Some ''acme@x.com'', l_password = Some ''Acme''\<rparr> 0))
   \<and> \<not> response_has_key ''password'' (get_wholesalers example_store)"
proof -
  let ?req = "example_request None
             (no_user_fields\<lparr>u_name := Some ''Dora'', u_email := Some ''dora@x.com'',
                              u_password := Some ''hunter2'', u_role := Some ''retailer''\<rparr>) 0"
  have "fst (signup example_env example_store ?req)
   = Responded 201
       (JObj [(''success'', JBool True), (''message'', JStr ''Account created''),
              (''user'', JObj [(''_id'', JId 100), (''name'', JStr ''Dora''),
                               (''email'', JStr ''dora@x.com''), (''role'', JStr ''retailer''),
                               (''createdAt'', JDate 1700), (''updatedAt'', JDate 1700),
                               (''__v'', JNum 0)])])"
    by (simp add: signup_def save_User_def new_User_def pre_save_def role_enum_def
          example_request_def no_user_fields_def example_store_def example_user_def
          example_env_def user_toJSON_def user_toObject_def entry_def Let_def)
  then show ?thesis
    using serialised_user_has_no_password
      [of "example_user 1 ''Acme'' ''acme@x.com'' ''wholesaler''" example_env example_store ?req
          "example_request None \<lparr>l_email = Some ''acme@x.com'', l_password = Some ''Acme''\<rparr> 0"]
    by simp
qed

subsection \<open>C4: the two ways a login fails\<close>




subsection \<open>C5: searching products\<close>

text \<open>
  C5 as stated: for every search string, the search returns exactly the products whose
  name or category contains the string, letter case aside, latest first. The code reads
  the string as a regular expression, so the statement fails for a string that holds a
  syntax character: the search for a single dot returns both products of the instance,
  and neither has a dot in its name or category.
\<close>

theorem search_dot_counterexample:
  "get_products example_store
     \<lparr>authorization = None, body = (), params_id = ObjectId 0, query_search = Some ''.''\<rparr>
     = Some (Responded 200 (JObj [(''success'', JBool True),
                                  (''products'', JArr [product_toJSON gadget, product_toJSON widget])]))
   \<and> \<not> spec_search ''.'' gadget \<and> \<not> spec_search ''.'' widget"
proof -
  have "\<not> spec_search ''.'' gadget" by code_simp
  moreover have "\<not> spec_search ''.'' widget" by code_simp
  moreover have "RegExp ''.'' = Some [Dot]" by (simp add: syntax_character_def)
  moreover have "find_products [Dot] example_store = [gadget, widget]"
    by (simp add: find_products_def example_store_def path_matches_def sort_createdAt_desc_def
          widget_def gadget_def)
  ultimately show ?thesis by (simp add: get_products_def)
qed

text \<open>
  C5, amended: for every search string that holds no regular-expression syntax character,
  the search answers 200 with exactly the products whose name or category contains the
  string, letter case aside (each once, as a multiset of the stored ones), ordered by
  creation time, latest first.
\<close>

theorem search_plain_string:
  assumes "query_search req = Some x" and "\<not> list_ex syntax_character x"
  shows "\<exists>ps. get_products s req =
              Some (Responded 200 (JObj [(''success'', JBool True),
                                         (''products'', JArr (map product_toJSON ps))]))
            \<and> mset ps = mset (filter (spec_search x) (products s))
            \<and> sorted_wrt (\<lambda>a b. p_createdAt b \<le> p_createdAt a) ps"
proof -
  let ?ps = "find_products (map Lit x) s"
  have "get_products s req =
          Some (Responded 200 (JObj [(''success'', JBool True),
                                     (''products'', JArr (map product_toJSON ?ps))]))"
    using assms by (simp add: get_products_def RegExp_plain)
  moreover have "mset ?ps = mset (filter (spec_search x) (products s))"
    by (simp add: find_products_def mset_sort_createdAt_desc path_matches_Lit spec_search_def)
  moreover have "sorted_wrt (\<lambda>a b. p_createdAt b \<le> p_createdAt a) ?ps"
    by (simp add: find_products_def sorted_sort_createdAt_desc)
  ultimately show ?thesis by blast
qed

text \<open>The search for \<^verbatim>\<open>tOo\<close> finds the widget by its category, Tools, and nothing else.\<close>

theorem search_plain_string_witness:
  "get_products example_store
     \<lparr>authorization = None, body = (), params_id = ObjectId 0, query_search = Some ''tOo''\<rparr>
     = Some (Responded 200 (JObj [(''success'', JBool True),
                                  (''products'', JArr [product_toJSON widget])]))"
proof -
  let ?req = "\<lparr>authorization = None, body = (), params_id = ObjectId 0, query_search = Some ''tOo''\<rparr>"
  have plain: "\<not> list_ex syntax_character ''tOo''" by (simp add: syntax_character_def)
  have w: "spec_search ''tOo'' widget" by code_simp
  have g: "\<not> spec_search ''tOo'' gadget" by code_simp
  from search_plain_string [of ?req "''tOo''" example_store, OF _ plain]
  obtain ps where r: "get_products example_store ?req =
              Some (Responded 200 (JObj [(''success'', JBool True),
                                         (''products'', JArr (map product_toJSON ps))]))"
    and m: "mset ps = mset (filter (spec_search ''tOo'') (products example_store))"
    by auto
  from m w g have "mset ps = {#widget#}" by (simp add: example_store_def)
  then have "ps = [widget]" by (simp add: mset_single_iff_right)
  with r show ?thesis by simp
qed

subsection \<open>C6: only wholesalers create products\<close>

text \<open>
  C6. An authenticated caller whose role is not wholesaler (a retailer, an admin, a
  token without a role) who posts a product is answered 403, and the store is left as
  it was: no product is created.
\<close>

theorem post_products_non_wholesaler_forbidden:
  assumes "authMiddleware e (authorization req) = Inr user"
    and "tc_role user \<noteq> Some ''wholesaler''"
  shows "post_products e s req =
           (Responded 403 (JObj [(''success'', JBool False),
                                 (''message'', JStr ''Only wholesalers can add products'')]), s)"
  using assms by (simp add: post_products_def)

theorem post_products_non_wholesaler_forbidden_witness:
  "post_products example_env example_store
     (example_request (Some ''Bearer token3'') (no_product_body\<lparr>pb_name := Value ''Crate''\<rparr>) 0)
   = (Responded 403 (JObj [(''success'', JBool False),
                           (''message'', JStr ''Only wholesalers can add products'')]),
      example_store)"
  using post_products_non_wholesaler_forbidden
    [of example_env "example_request (Some ''Bearer token3'') (no_product_body\<lparr>pb_name := Value ''Crate''\<rparr>) 0"
        "\<lparr>tc_id = 3, tc_role = Some ''retailer''\<rparr>" example_store]
  by (simp add: auth_token3 example_request_def)

subsection \<open>C7: a second signup with the same email\<close>

text \<open>
  C7. A signup whose email is the email of a stored user is answered 400 with
  \<^verbatim>\<open>{ success: false, message }\<close>, and the store is left as it was. The message is the
  store's duplicate-key text, or the validator's when the payload's role is also outside
  the enum (validation runs before the insert).
\<close>

theorem signup_duplicate_email_rejected:
  assumes "\<exists>u\<in>set (users s). u_email u = u_email (body req)"
  shows "signup e s req =
           (Responded 400
              (JObj [(''success'', JBool False),
                     (''message'', JStr (error_message e
                        (if role_enum (u_role (body req)) then DuplicateKeyError else ValidationError)))]),
            s)"
  using assms
  by (auto simp: signup_def save_User_def new_User_def pre_save_def list_ex_iff Let_def)

theorem signup_duplicate_email_rejected_witness:
  "signup example_env example_store
     (example_request None
        (no_user_fields\<lparr>u_name := Some ''Acme Two'', u_email := Some ''acme@x.com'',
                         u_password := Some ''pw'', u_role := Some ''retailer''\<rparr>) 0)
   = (Responded 400 (JObj [(''success'', JBool False),
                           (''message'', JStr ''E11000 duplicate key error'')]),
      example_store)"
  using signup_duplicate_email_rejected
    [of example_store
        "example_request None
          (no_user_fields\<lparr>u_name := Some ''Acme Two'', u_email := Some ''acme@x.com'',
                           u_password := Some ''pw'', u_role := Some ''retailer''\<rparr>) 0"
        example_env]
  by (simp add: example_request_def example_store_def example_user_def example_env_def
        no_user_fields_def role_enum_def)

subsection \<open>C8: anyone creates an order, with the default statuses\<close>

text \<open>
  C8 as stated: every create-order call is answered 201. The handler awaits \<^verbatim>\<open>save\<close>
  outside any \<^verbatim>\<open>try\<close>, so a payload with a value that cannot be cast (a price that is
  no number) is answered by nothing, and nothing is stored.
\<close>

theorem post_orders_uncastable_counterexample:
  "post_orders example_env example_store
     (example_request None
        (no_order_body\<lparr>ob_productName := Value ''Widget'', ob_price := Uncastable,
                        ob_quantity := Value 2\<rparr>) 0)
   = (Unhandled, example_store)"
  by (simp add: post_orders_def save_Order_def order_cast_fails_def uncastable_def
        example_request_def no_order_body_def)

text \<open>
  C8, amended: a create-order request whose payload values all cast to their paths'
  types, and whose new document's \<^verbatim>\<open>_id\<close> (the payload's own or else the generated
  one) is not a stored order's, is answered 201 with the stored order, whatever its
  \<^verbatim>\<open>Authorization\<close> header (none at all for an anonymous caller); when the payload leaves
  out the payment status the stored one is Pending, and when it leaves out the
  fulfilment status the stored one is Processing.
\<close>

theorem post_orders_open_to_all_with_defaults:
  assumes "\<not> order_cast_fails (body req)"
    and "\<forall>d\<in>set (orders s). o_id d \<noteq> o_id (new_Order e (body req))"
  shows "post_orders e s req =
     (Responded 201 (JObj [(''success'', JBool True), (''order'', order_toJSON (new_Order e (body req)))]),
      s\<lparr>orders := orders s @ [new_Order e (body req)]\<rparr>)
   \<and> (ob_paymentStatus (body req) = Absent \<longrightarrow> o_paymentStatus (new_Order e (body req)) = Some ''Pending'')
   \<and> (ob_status (body req) = Absent \<longrightarrow> o_status (new_Order e (body req)) = Some ''Processing'')"
proof -
  from assms have "save_Order e s (body req) =
      Inr (new_Order e (body req), s\<lparr>orders := orders s @ [new_Order e (body req)]\<rparr>)"
    by (simp add: save_Order_def list_ex_iff Let_def)
  then have "post_orders e s req =
     (Responded 201 (JObj [(''success'', JBool True), (''order'', order_toJSON (new_Order e (body req)))]),
      s\<lparr>orders := orders s @ [new_Order e (body req)]\<rparr>)"
    by (simp add: post_orders_def)
  then show ?thesis
    by (simp add: new_Order_def default_to_def cast_value_def)
qed

text \<open>The anonymous order for two widgets.\<close>

theorem post_orders_open_to_all_with_defaults_witness:
  "post_orders example_env example_store
     (example_request None
        (no_order_body\<lparr>ob_productName := Value ''Widget'', ob_price := Value 10,
                        ob_quantity := Value 2\<rparr>) 0)
   = (Responded 201
        (JObj [(''success'', JBool True),
               (''order'', JObj [(''_id'', JId 100), (''productName'', JStr ''Widget''),
                                 (''price'', JNum 10), (''quantity'', JNum 2),
                                 (''paymentStatus'', JStr ''Pending''),
                                 (''status'', JStr ''Processing''),
                                 (''createdAt'', JDate 1700), (''updatedAt'', JDate 1700),
                               (''__v'', JNum 0)])]),
      example_store\<lparr>orders :=
        [\<lparr>o_productName = Some ''Widget'', o_price = Some 10, o_quantity = Some 2,
          o_address = None, o_paymentMethod = None, o_paymentStatus = Some ''Pending'',
          o_razorpayOrderId = None, o_razorpayPaymentId = None, o_customerName = None,
          o_email = None, o_phone = None, o_status = Some ''Processing'',
          o_id = 100, o_createdAt = 1700, o_updatedAt = 1700\<rparr>]\<rparr>)"
  using post_orders_open_to_all_with_defaults
    [of "example_request None
          (no_order_body\<lparr>ob_productName := Value ''Widget'', ob_price := Value 10,
                          ob_quantity := Value 2\<rparr>) 0"
        example_store example_env]
  by (simp add: example_request_def example_store_def example_env_def no_order_body_def
        new_Order_def default_to_def order_toJSON_def order_toObject_def entry_def
        order_cast_fails_def uncastable_def cast_value_def)

subsection \<open>C9: the charge sent to the gateway\<close>

text \<open>
  C9. For a request amount \<open>x\<close>, the charge handed to the gateway has as amount an integer
  at distance at most one half from \<open>x\<close> (the upper one at a tie), the currency INR and
  the receipt \<^verbatim>\<open>receipt_\<close> followed by the clock reading of the call; the response is the
  gateway's answer to that charge; and two calls with the same receipt read the same
  clock value.
\<close>

theorem charge_request_rounds_amount:
  "charge_request e (Some x) =
     \<lparr>ch_amount = Num (of_int \<lfloor>x + 1 / 2\<rfloor>), ch_currency = ''INR'',
      ch_receipt = ''receipt_'' @ decimal (now e)\<rparr>
   \<and> \<bar>of_int \<lfloor>x + 1 / 2\<rfloor> - x\<bar> \<le> 1 / 2
   \<and> (body req = Some x \<longrightarrow>
        create_order e req =
          (case razorpay_orders_create e (charge_request e (Some x)) of
             None \<Rightarrow> Unhandled
           | Some order \<Rightarrow> Responded 200 order))
   \<and> (ch_receipt (charge_request e a) = ch_receipt (charge_request e' a') \<longrightarrow> now e = now e')"
proof -
  have "ch_receipt (charge_request e a) = ch_receipt (charge_request e' a') \<longrightarrow> now e = now e'"
    by (auto simp: charge_request_def dest: decimal_inj)
  moreover have "body req = Some x \<longrightarrow>
        create_order e req =
          (case razorpay_orders_create e (charge_request e (Some x)) of
             None \<Rightarrow> Unhandled
           | Some order \<Rightarrow> Responded 200 order)"
    by (simp add: create_order_def)
  moreover have "charge_request e (Some x) =
     \<lparr>ch_amount = Num (of_int \<lfloor>x + 1 / 2\<rfloor>), ch_currency = ''INR'',
      ch_receipt = ''receipt_'' @ decimal (now e)\<rparr>"
    by (simp add: charge_request_def ToNumber_def)
  ultimately show ?thesis
    using round_half_up_nearest [of x] by blast
qed

text \<open>The amount 499.6 goes out as 500.\<close>

theorem charge_request_rounds_amount_witness:
  "charge_request example_env (Some (4996 / 10)) =
     \<lparr>ch_amount = Num 500, ch_currency = ''INR'', ch_receipt = ''receipt_1700''\<rparr>
   \<and> create_order example_env (example_request None (Some (4996 / 10)) 0) =
       Responded 200 (JObj [(''amount'', JNum 500), (''currency'', JStr ''INR''),
                            (''receipt'', JStr ''receipt_1700'')])"
proof -
  have fl: "\<lfloor>(5001 / 10 :: rat)\<rfloor> = 500" by code_simp
  have dec: "decimal 1700 = ''1700''"
    by (simp add: decimal_small decimal_big digit_char_def)
  have n: "now example_env = 1700"
    and g: "razorpay_orders_create example_env
              \<lparr>ch_amount = Num 500, ch_currency = ''INR'', ch_receipt = ''receipt_1700''\<rparr>
            = Some (JObj [(''amount'', JNum 500), (''currency'', JStr ''INR''),
                          (''receipt'', JStr ''receipt_1700'')])"
    by (simp_all add: example_env_def)
  show ?thesis
    using charge_request_rounds_amount
      [of example_env "4996 / 10" "example_request None (Some (4996 / 10)) 0"]
    by (simp add: fl dec n g example_request_def)
qed

subsection \<open>C10: a payload that names its own statuses\<close>

text \<open>
  C10. When the payload of a create-order request names a payment status or a fulfilment
  status, the order appended to the store carries the payload's value, not the default;
  the route has no middleware, so any caller can store an order that is already Paid.
  A call either stores exactly one such order and answers 201, or stores nothing and
  answers nothing; it answers whenever the payload's values all cast and the new
  document's \<^verbatim>\<open>_id\<close> is not a stored order's.
\<close>

theorem post_orders_supplied_status_stored:
  assumes "post_orders e s req = (r, s')"
  shows "((\<exists>order. r = Responded 201 (JObj [(''success'', JBool True), (''order'', order_toJSON order)])
            \<and> orders s' = orders s @ [order]
            \<and> (\<forall>v. ob_paymentStatus (body req) = Value v \<longrightarrow> o_paymentStatus order = Some v)
            \<and> (\<forall>v. ob_status (body req) = Value v \<longrightarrow> o_status order = Some v))
          \<or> (r = Unhandled \<and> s' = s))
       \<and> (\<not> order_cast_fails (body req)
            \<and> (\<forall>d\<in>set (orders s). o_id d \<noteq> o_id (new_Order e (body req)))
          \<longrightarrow> r \<noteq> Unhandled)"
proof (cases "save_Order e s (body req)")
  case (Inl err)
  with assms have "r = Unhandled \<and> s' = s"
    by (auto simp: post_orders_def)
  moreover from Inl have "order_cast_fails (body req)
      \<or> \<not> (\<forall>d\<in>set (orders s). o_id d \<noteq> o_id (new_Order e (body req)))"
    by (auto simp: save_Order_def list_ex_iff Let_def split: if_splits)
  ultimately show ?thesis by blast
next
  case (Inr saved)
  then have saved: "saved = (new_Order e (body req), s\<lparr>orders := orders s @ [new_Order e (body req)]\<rparr>)"
    by (auto simp: save_Order_def Let_def split: if_splits)
  with Inr assms have r: "r = Responded 201 (JObj [(''success'', JBool True),
                                                  (''order'', order_toJSON (new_Order e (body req)))])"
    and s': "orders s' = orders s @ [new_Order e (body req)]"
    by (auto simp: post_orders_def)
  have "\<forall>v. ob_paymentStatus (body req) = Value v \<longrightarrow> o_paymentStatus (new_Order e (body req)) = Some v"
    and "\<forall>v. ob_status (body req) = Value v \<longrightarrow> o_status (new_Order e (body req)) = Some v"
    by (simp_all add: new_Order_def default_to_def cast_value_def)
  with r s' show ?thesis by blast
qed

theorem post_orders_supplied_status_stored_witness:
  "\<exists>order. orders (snd (post_orders example_env example_store
       (example_request None
          (no_order_body\<lparr>ob_productName := Value ''Widget'', ob_paymentStatus := Value ''Paid'',
                          ob_status := Value ''Delivered''\<rparr>) 0))) = [order]
     \<and> o_paymentStatus order = Some ''Paid'' \<and> o_status order = Some ''Delivered''"
proof -
  let ?req = "example_request None
          (no_order_body\<lparr>ob_productName := Value ''Widget'', ob_paymentStatus := Value ''Paid'',
                          ob_status := Value ''Delivered''\<rparr>) 0"
  have ok: "\<not> order_cast_fails (body ?req)"
    by (simp add: example_request_def no_order_body_def order_cast_fails_def uncastable_def)
  have fresh: "\<forall>d\<in>set (orders example_store). o_id d \<noteq> o_id (new_Order example_env (body ?req))"
    by (simp add: example_store_def)
  from post_orders_supplied_status_stored
    [of example_env example_store ?req "fst (post_orders example_env example_store ?req)"
        "snd (post_orders example_env example_store ?req)"] ok fresh
  show ?thesis
    by (auto simp: example_request_def example_store_def no_order_body_def)
qed

end
